theory Spec2Isabelle
  imports Main "HOL-Library.Word"
begin

unbundle bit_operations_syntax

section \<open>Bytes, C strings and formatted output\<close>

type_synonym byte = "8 word"

text \<open>A C string literal as the bytes it denotes (without the terminating NUL).\<close>

definition bytes_of :: "string \<Rightarrow> byte list" where
  "bytes_of s = map of_char s"

definition newline :: byte where
  "newline = 10"

text \<open>
  \<open>strlen\<close> and \<open>strcmp\<close> of the C library read a buffer up to its first NUL byte.
  Every buffer they are applied to in \<open>main\<close> ends with a NUL.
\<close>

definition cstr :: "byte list \<Rightarrow> byte list" where
  "cstr p = takeWhile (\<lambda>b. b \<noteq> 0) p"

definition strlen :: "byte list \<Rightarrow> nat" where
  "strlen p = length (cstr p)"

definition strcmp_differs :: "byte list \<Rightarrow> byte list \<Rightarrow> bool" where
  "strcmp_differs a b = (cstr a \<noteq> cstr b)"

text \<open>The conversion \<open>%d\<close> of \<open>printf\<close>: a signed decimal numeral.\<close>

fun dec_digits :: "nat \<Rightarrow> byte list" where
  "dec_digits n =
     (if n < 10 then [of_nat n + of_char CHR ''0'']
      else dec_digits (n div 10) @ [of_nat (n mod 10) + of_char CHR ''0''])"

definition print_d :: "int \<Rightarrow> byte list" where
  "print_d i = (if i < 0 then of_char CHR ''-'' # dec_digits (nat (- i)) else dec_digits (nat i))"

section \<open>The hex encoder\<close>

text \<open>
  Both branches of the loop body of \<open>hexify\<close> apply the same map to a nibble value:
  \<open>v + '0'\<close> when \<open>v < 10\<close>, and \<open>v + 'A' - 10\<close> otherwise.
\<close>

definition hex_digit :: "byte \<Rightarrow> byte" where
  "hex_digit v = (if v < 10 then v + of_char CHR ''0'' else v + of_char CHR ''A'' - 10)"

text \<open>
  \<open>hexify (hex, bin, n)\<close>: the argument is the \<open>n\<close> bytes at \<open>bin\<close>, the result is the
  bytes stored at \<open>hex\<close>: two per input byte (high nibble \<open>(*bin & 0xf0) >> 4\<close>, then low
  nibble \<open>*bin & 0xf\<close>) and the final \<open>*hex = 0\<close>.
\<close>

definition high_nibble :: "byte \<Rightarrow> byte" where
  "high_nibble b = drop_bit 4 (b AND 0xf0)"

definition low_nibble :: "byte \<Rightarrow> byte" where
  "low_nibble b = b AND 0xf"

fun hexify :: "byte list \<Rightarrow> byte list" where
  "hexify [] = [0]"
| "hexify (b # bin) = hex_digit (high_nibble b) # hex_digit (low_nibble b) # hexify bin"

text \<open>
  Modelled from the spec: the decoder of the round-trip law. The sources contain the
  encoder only; this is the inverse reading of an upper-case hexadecimal string, two
  digits per byte, high nibble first. The value of one digit:
\<close>

definition unhex_digit :: "byte \<Rightarrow> byte option" where
  "unhex_digit d =
     (if of_char CHR ''0'' \<le> d \<and> d \<le> of_char CHR ''9'' then Some (d - of_char CHR ''0'')
      else if of_char CHR ''A'' \<le> d \<and> d \<le> of_char CHR ''F'' then Some (d - of_char CHR ''A'' + 10)
      else None)"

text \<open>
  Modelled from the spec: the decoder of a whole string; \<open>None\<close> for a string of odd
  length or with a character outside \<open>0-9A-F\<close>.
\<close>

fun unhexify :: "byte list \<Rightarrow> byte list option" where
  "unhexify [] = Some []"
| "unhexify [d] = None"
| "unhexify (h # l # ds) =
     (case (unhex_digit h, unhex_digit l, unhexify ds) of
        (Some x, Some y, Some bs) \<Rightarrow> Some ((push_bit 4 x OR y) # bs)
      | _ \<Rightarrow> None)"

section \<open>The environment of a run\<close>

text \<open>
  \<open>struct termios\<close> comes from the platform header; the flag words and the control
  characters are kept, and \<open>ECHO\<close> and \<open>ISIG\<close> have their Linux values.
\<close>

record termios =
  c_iflag :: "32 word"
  c_oflag :: "32 word"
  c_cflag :: "32 word"
  c_lflag :: "32 word"
  c_cc :: "byte list"

definition ECHO :: "32 word" where
  "ECHO = 0x8"

definition ISIG :: "32 word" where
  "ISIG = 0x1"

datatype stream = Stdin | Stdout | Stderr | Tty

datatype buf_id = Bufhex | Buf | Salt | Salthex | Pass1 | Pass2

text \<open>The state of the \<open>FILE *f\<close> of the salt block when a call is made on it.\<close>

datatype file_handle = Null | Opened | Closed

text \<open>
  The calls of \<open>main\<close> that reach outside the program, in the order they are made.
  \<open>Free\<close> carries the contents of the buffer at the moment it is released.
\<close>

datatype event =
    Write stream "byte list"
  | Getline stream
  | Tcgetattr stream
  | Tcsetattr stream termios
  | Fopen string
  | Fread nat
  | Fclose file_handle
  | Pbkdf2 "byte list" "byte list" "32 word" nat
  | Memset buf_id nat
  | Free buf_id "byte list"

text \<open>
  How a run ends: \<open>exit\<close> or \<open>return\<close> from \<open>main\<close> with a status; a call of
  \<open>grub_util_error\<close> with its format string and arguments, which does not return; or
  a library call whose behaviour the C standard leaves undefined (\<open>fclose\<close> on a null
  or already closed stream, a store past the end of an allocation), where the model stops.
\<close>

datatype outcome = Exit int | Fatal string "int list" | Undefined

text \<open>
  Modelled from the spec: \<open>grub_util_error\<close> is declared in \<open>grub/util/misc.h\<close> and
  defined outside these sources. According to the spec every fatal error terminates the
  process with a non-zero status.
\<close>

fun exits_nonzero :: "outcome \<Rightarrow> bool" where
  "exits_nonzero (Exit n) = (n \<noteq> 0)"
| "exits_nonzero (Fatal m args) = True"
| "exits_nonzero Undefined = False"

text \<open>
  Everything the run takes from outside: the results of \<open>getopt_long\<close> with
  \<open>strtoul (optarg, NULL, 0)\<close> of each, whether each \<open>malloc\<close> succeeds and what the
  fresh memory holds, the terminal, the two lines \<open>getline\<close> returns (\<open>None\<close> when it
  returns \<open>-1\<close>, having read nothing; a line may hold NUL bytes), the bytes the random
  device delivers before \<open>fread\<close> stops, the key-derivation primitive
  \<open>grub_crypto_pbkdf2\<close> (its error code and the bytes it stores in the output buffer), and
  the package macros.
\<close>

record env =
  opts :: "(char \<times> 64 word) list"
  malloc_bufhex :: bool
  malloc_buf :: bool
  malloc_salt :: bool
  malloc_salthex :: bool
  garbage :: "buf_id \<Rightarrow> nat \<Rightarrow> byte"
  tty_open :: bool
  tcgetattr_res :: "termios option"
  tcset_modify_ok :: bool
  tcset_restore_ok :: bool
  line1 :: "byte list option"
  line2 :: "byte list option"
  random_open :: bool
  random_data :: "byte list"
  kdf :: "byte list \<Rightarrow> byte list \<Rightarrow> 32 word \<Rightarrow> nat \<Rightarrow> int \<times> (nat \<Rightarrow> byte)"
  package_bugreport :: string
  package_name :: string
  package_version :: string

text \<open>The variables \<open>c\<close>, \<open>buflen\<close> and \<open>saltlen\<close> of \<open>main\<close> (\<open>unsigned int\<close>).\<close>

record params =
  c_count :: "32 word"
  buflen :: "32 word"
  saltlen :: "32 word"

definition default_params :: params where
  "default_params = \<lparr>c_count = 10000, buflen = 64, saltlen = 64\<rparr>"

record state =
  trace :: "event list"
  heap :: "buf_id \<Rightarrow> byte list option"
  tty_attr :: "termios option"

definition init_state :: "env \<Rightarrow> state" where
  "init_state e = \<lparr>trace = [], heap = (\<lambda>b. None), tty_attr = tcgetattr_res e\<rparr>"

section \<open>Library calls as state updates\<close>

definition emit :: "event \<Rightarrow> state \<Rightarrow> state" where
  "emit ev st = st\<lparr>trace := trace st @ [ev]\<rparr>"

definition buffer :: "state \<Rightarrow> buf_id \<Rightarrow> byte list" where
  "buffer st b = (case heap st b of Some bs \<Rightarrow> bs | None \<Rightarrow> [])"

definition store :: "buf_id \<Rightarrow> byte list \<Rightarrow> state \<Rightarrow> state" where
  "store b bs st = st\<lparr>heap := (heap st)(b := Some bs)\<rparr>"

text \<open>\<open>malloc (n)\<close>: a fresh allocation of \<open>n\<close> bytes with indeterminate contents.\<close>

definition malloc :: "env \<Rightarrow> buf_id \<Rightarrow> nat \<Rightarrow> state \<Rightarrow> state" where
  "malloc e b n st = store b (map (garbage e b) [0..<n]) st"

text \<open>\<open>memset (b, 0, n)\<close>; every call in \<open>main\<close> stays inside the allocation.\<close>

definition memset :: "buf_id \<Rightarrow> nat \<Rightarrow> state \<Rightarrow> state" where
  "memset b n st =
     emit (Memset b n)
       (store b (replicate (min n (length (buffer st b))) 0 @ drop n (buffer st b)) st)"

definition free :: "buf_id \<Rightarrow> state \<Rightarrow> state" where
  "free b st = (emit (Free b (buffer st b)) st)\<lparr>heap := (heap st)(b := None)\<rparr>"

definition printf :: "byte list \<Rightarrow> state \<Rightarrow> state" where
  "printf s st = emit (Write Stdout s) st"

definition tcsetattr :: "bool \<Rightarrow> stream \<Rightarrow> termios \<Rightarrow> state \<Rightarrow> state" where
  "tcsetattr ok fd a st =
     (emit (Tcsetattr fd a) st)\<lparr>tty_attr := (if ok then Some a else tty_attr st)\<rparr>"

text \<open>A sequence of statements, run in the order written.\<close>

definition run_ops :: "(state \<Rightarrow> state) list \<Rightarrow> state \<Rightarrow> state" where
  "run_ops ops st = foldl (\<lambda>s f. f s) st ops"

text \<open>
  The buffer \<open>getline\<close> hands back for a line of \<open>nr\<close> bytes (the line and a NUL), after
  \<open>if (nr >= 1 && pass[nr-1] == '\n') pass[nr-1] = 0\<close>.
\<close>

definition chomp :: "byte list \<Rightarrow> byte list" where
  "chomp l =
     (let nr = length l; pass = l @ [0]
      in if nr \<ge> 1 \<and> pass ! (nr - 1) = newline then pass[nr - 1 := 0] else pass)"

section \<open>The program\<close>

definition usage_hint :: "byte list" where
  "usage_hint = bytes_of ''Try ``grub-scrypt --help'' @ [39, 39] @
     bytes_of '' for more information.'' @ [newline]"

definition usage_text :: "string \<Rightarrow> byte list" where
  "usage_text bugreport =
     bytes_of ''Usage: grub-scrypt [OPTIONS]'' @ [newline, newline] @
     bytes_of ''Options:'' @ [newline] @
     bytes_of ''     -c number, --iteration-count=number  Number of PBKDF2 iterations'' @ [newline] @
     bytes_of ''     -l number, --buflen=number           Length of generated hash'' @ [newline] @
     bytes_of ''     -s number, --salt=number             Length of salt'' @ [newline, newline] @
     bytes_of ''Report bugs to <'' @ bytes_of bugreport @ bytes_of ''>.'' @ [newline]"

definition usage :: "int \<Rightarrow> env \<Rightarrow> state \<Rightarrow> outcome \<times> state" where
  "usage status e st =
     (if status \<noteq> 0 then (Exit status, emit (Write Stderr usage_hint) st)
      else (Exit status, printf (usage_text (package_bugreport e)) st))"

text \<open>
  The option loop of \<open>main\<close>. Each list element is one result of \<open>getopt_long\<close> with the
  value of \<open>strtoul (optarg, NULL, 0)\<close>; the end of the list is the result \<open>-1\<close>.
  The loop body declares \<open>int c = getopt_long (...)\<close>, so \<open>case 'c': c = strtoul (...)\<close>
  assigns that block-local variable, which the next iteration overwrites; the iteration
  count \<open>c\<close> of the enclosing scope is not assigned. The other two assignments convert
  the \<open>unsigned long\<close> to \<open>unsigned int\<close>.
\<close>

fun parse_options ::
  "env \<Rightarrow> (char \<times> 64 word) list \<Rightarrow> params \<Rightarrow> state \<Rightarrow> (outcome \<times> state) + params" where
  "parse_options e [] p st = Inr p"
| "parse_options e ((ch, v) # rest) p st =
     (if ch = CHR ''c'' then parse_options e rest p st
      else if ch = CHR ''l'' then parse_options e rest (p\<lparr>buflen := ucast v\<rparr>) st
      else if ch = CHR ''s'' then parse_options e rest (p\<lparr>saltlen := ucast v\<rparr>) st
      else if ch = CHR ''h'' then Inl (usage 0 e st)
      else if ch = CHR ''V'' then
        Inl (Exit 0, printf (bytes_of (''grub-pbkdf2 ('' @ package_name e @ '') '' @
                                         package_version e) @ [newline]) st)
      else Inl (usage 1 e st))"

text \<open>
  Lines 303 to 336: key derivation, encoding and the output line. \<open>hexify\<close> stores
  \<open>2 * n + 1\<close> bytes, with \<open>n\<close> a \<open>grub_size_t\<close>; where the allocation, whose size
  was computed in \<open>unsigned int\<close>, is shorter than that, the store runs past its end.
\<close>

definition credential_line :: "32 word \<Rightarrow> byte list \<Rightarrow> byte list \<Rightarrow> byte list" where
  "credential_line c salthex bufhex =
     bytes_of ''Your PBKDF2 is grub.pbkdf2.sha512.'' @ print_d (sint c) @ bytes_of ''.'' @
     cstr salthex @ bytes_of ''.'' @ cstr bufhex @ [newline]"

definition wipe_all :: "params \<Rightarrow> state \<Rightarrow> state" where
  "wipe_all p =
     run_ops
       [memset Buf (unat (buflen p)),
        memset Bufhex (unat (2 * buflen p)),
        free Buf,
        free Bufhex,
        memset Salt (unat (saltlen p)),
        memset Salthex (unat (2 * saltlen p)),
        free Salt,
        free Salthex]"

definition derive :: "env \<Rightarrow> params \<Rightarrow> state \<Rightarrow> outcome \<times> state" where
  "derive e p st0 =
     (let pass1 = buffer st0 Pass1;
          salt = take (unat (saltlen p)) (buffer st0 Salt);
          (gcry_err, dk) = kdf e (cstr pass1) salt (c_count p) (unat (buflen p));
          st1 = emit (Pbkdf2 (cstr pass1) salt (c_count p) (unat (buflen p))) st0;
          st2 = store Buf (map dk [0..<unat (buflen p)]) st1;
          st3 = run_ops [memset Pass1 (strlen pass1), free Pass1] st2
      in if gcry_err \<noteq> 0 then
           (Fatal ''Cryptographic error number %d'' [gcry_err], wipe_all p st3)
         else if length (buffer st3 Bufhex) < 2 * unat (buflen p) + 1
               \<or> length (buffer st3 Salthex) < 2 * unat (saltlen p) + 1 then
           (Undefined, st3)
         else
           (let st4 = store Bufhex (hexify (take (unat (buflen p)) (buffer st3 Buf))) st3;
                st5 = store Salthex (hexify (take (unat (saltlen p)) (buffer st4 Salt))) st4;
                st6 = printf (credential_line (c_count p) (buffer st5 Salthex)
                                (buffer st5 Bufhex)) st5
            in (Exit 0, wipe_all p st6)))"

text \<open>
  Lines 268 to 301: the salt is read from the random device. The platform is Linux or
  FreeBSD, where the warning of lines 268 to 270 is compiled out.
\<close>

definition release_all :: "state \<Rightarrow> state" where
  "release_all = run_ops [free Buf, free Bufhex, free Salthex, free Salt]"

definition read_salt :: "env \<Rightarrow> params \<Rightarrow> state \<Rightarrow> outcome \<times> state" where
  "read_salt e p st0 =
     (let st1 = emit (Fopen ''/dev/random'') st0
      in if \<not> random_open e then
           (Undefined,
            run_ops [memset Pass1 (strlen (buffer st1 Pass1)), free Pass1, release_all,
                     emit (Fclose Null)] st1)
         else
           (let got = take (unat (saltlen p)) (random_data e);
                rd = length got;
                st2 = store Salt (got @ drop rd (buffer st1 Salt))
                        (emit (Fread (unat (saltlen p))) st1)
            in if rd \<noteq> unat (saltlen p) then
                 (Undefined,
                  run_ops [emit (Fclose Opened),
                           memset Pass1 (strlen (buffer st2 Pass1)), free Pass1, release_all,
                           emit (Fclose Closed)] st2)
               else derive e p (emit (Fclose Opened) st2)))"

text \<open>
  Lines 209 to 266: the two prompts. \<open>inS\<close> is the stream \<open>in\<close>, \<open>s\<close> the saved
  attributes; both \<open>getline\<close> calls are made on \<open>stdin\<close> and the prompts are written with
  \<open>printf\<close>.
\<close>

definition restore :: "env \<Rightarrow> stream \<Rightarrow> bool \<Rightarrow> termios option \<Rightarrow> state \<Rightarrow> state" where
  "restore e inS tty_changed s st =
     (case s of
        Some a \<Rightarrow> if tty_changed then tcsetattr (tcset_restore_ok e) inS a st else st
      | None \<Rightarrow> st)"

definition reenter ::
  "env \<Rightarrow> params \<Rightarrow> stream \<Rightarrow> bool \<Rightarrow> termios option \<Rightarrow> state \<Rightarrow> outcome \<times> state" where
  "reenter e p inS tty_changed s st0 =
     (let st1 = run_ops [printf (newline # bytes_of ''Reenter password: ''),
                         emit (Getline Stdin),
                         restore e inS tty_changed s,
                         printf [newline]] st0
      in case line2 e of
           None \<Rightarrow>
             (Fatal ''Failure to read password'' [],
              run_ops [memset Pass1 (strlen (buffer st1 Pass1)), free Pass1, release_all] st1)
         | Some l \<Rightarrow>
             (let st2 = store Pass2 (chomp l) st1
              in if strcmp_differs (buffer st2 Pass1) (buffer st2 Pass2) then
                   (Fatal ''Passwords don't match'' [],
                    run_ops [memset Pass1 (strlen (buffer st2 Pass1)),
                             memset Pass2 (strlen (buffer st2 Pass2)),
                             free Pass1, free Pass2, release_all] st2)
                 else
                   read_salt e p
                     (run_ops [memset Pass2 (strlen (buffer st2 Pass2)), free Pass2] st2)))"

definition enter ::
  "env \<Rightarrow> params \<Rightarrow> stream \<Rightarrow> bool \<Rightarrow> termios option \<Rightarrow> state \<Rightarrow> outcome \<times> state" where
  "enter e p inS tty_changed s st0 =
     (let st1 = run_ops [printf (bytes_of ''Enter password: ''), emit (Getline Stdin)] st0
      in case line1 e of
           None \<Rightarrow>
             (Fatal ''Failure to read password'' [],
              run_ops [release_all, restore e inS tty_changed s] st1)
         | Some l \<Rightarrow> reenter e p inS tty_changed s (store Pass1 (chomp l) st1))"

text \<open>
  Lines 189 to 207: \<open>in\<close> and \<open>out\<close> are chosen, the attributes of \<open>in\<close> are saved and
  \<open>ECHO\<close> and \<open>ISIG\<close> are cleared. \<open>out\<close> is assigned and not used afterwards.
\<close>

definition echo_off :: "env \<Rightarrow> params \<Rightarrow> state \<Rightarrow> outcome \<times> state" where
  "echo_off e p st0 =
     (let inS = (if tty_open e then Tty else Stdin);
          out = (if tty_open e then Tty else Stderr);
          st1 = run_ops [emit (Fopen ''/dev/tty''), emit (Tcgetattr inS)] st0
      in case tcgetattr_res e of
           Some t \<Rightarrow>
             (let s = t;
                  t' = t\<lparr>c_lflag := c_lflag t AND NOT (ECHO OR ISIG)\<rparr>;
                  tty_changed = tcset_modify_ok e
              in enter e p inS tty_changed (Some s) (tcsetattr tty_changed inS t' st1))
         | None \<Rightarrow> enter e p inS False None st1)"

text \<open>
  Lines 162 to 186: the four allocations. The sizes \<open>buflen * 2 + 1\<close> and
  \<open>saltlen * 2 + 1\<close> are computed in \<open>unsigned int\<close>.
\<close>

definition allocate :: "env \<Rightarrow> params \<Rightarrow> state \<Rightarrow> outcome \<times> state" where
  "allocate e p st0 =
     (if \<not> malloc_bufhex e then (Fatal ''Out of memory'' [], st0)
      else
        let st1 = malloc e Bufhex (unat (buflen p * 2 + 1)) st0
        in if \<not> malloc_buf e then (Fatal ''Out of memory'' [], free Bufhex st1)
           else
             let st2 = malloc e Buf (unat (buflen p)) st1
             in if \<not> malloc_salt e then
                  (Fatal ''Out of memory'' [], run_ops [free Bufhex, free Buf] st2)
                else
                  let st3 = malloc e Salt (unat (saltlen p)) st2
                  in if \<not> malloc_salthex e then
                       (Fatal ''Out of memory'' [], run_ops [free Salt, free Bufhex, free Buf] st3)
                     else echo_off e p (malloc e Salthex (unat (saltlen p * 2 + 1)) st3))"

definition main :: "env \<Rightarrow> outcome \<times> state" where
  "main e =
     (case parse_options e (opts e) default_params (init_state e) of
        Inl r \<Rightarrow> r
      | Inr p \<Rightarrow> allocate e p (init_state e))"

section \<open>Observations on a run\<close>

text \<open>What standard output has received.\<close>

fun stdout_of :: "event list \<Rightarrow> byte list" where
  "stdout_of [] = []"
| "stdout_of (Write Stdout s # tr) = s @ stdout_of tr"
| "stdout_of (ev # tr) = stdout_of tr"

definition credential_tag :: "byte list" where
  "credential_tag = bytes_of ''Your PBKDF2 is ''"

fun is_credential_write :: "event \<Rightarrow> bool" where
  "is_credential_write (Write Stdout s) = (take (length credential_tag) s = credential_tag)"
| "is_credential_write ev = False"

definition prints_credential :: "event list \<Rightarrow> bool" where
  "prints_credential tr = list_ex is_credential_write tr"

text \<open>The streams read by \<open>getline\<close> and the streams written, in order.\<close>

fun getline_streams :: "event list \<Rightarrow> stream list" where
  "getline_streams [] = []"
| "getline_streams (Getline f # tr) = f # getline_streams tr"
| "getline_streams (ev # tr) = getline_streams tr"

fun written_streams :: "event list \<Rightarrow> stream list" where
  "written_streams [] = []"
| "written_streams (Write f s # tr) = f # written_streams tr"
| "written_streams (ev # tr) = written_streams tr"

text \<open>The reads of a line and the changes of the terminal attributes, in order.\<close>

fun is_tty_call :: "event \<Rightarrow> bool" where
  "is_tty_call (Getline f) = True"
| "is_tty_call (Tcsetattr f a) = True"
| "is_tty_call ev = False"

definition tty_calls :: "event list \<Rightarrow> event list" where
  "tty_calls tr = filter is_tty_call tr"

text \<open>
  On a list of such calls: each read of a line is directly followed by a \<open>tcsetattr\<close>
  that installs the attributes \<open>s\<close>.
\<close>

fun restored_after_each_read :: "termios \<Rightarrow> event list \<Rightarrow> bool" where
  "restored_after_each_read s [] = True"
| "restored_after_each_read s (Getline f # Tcsetattr g a # tr) =
     (a = s \<and> restored_after_each_read s tr)"
| "restored_after_each_read s (Getline f # tr) = False"
| "restored_after_each_read s (ev # tr) = restored_after_each_read s tr"

text \<open>The calls of the key-derivation primitive and of \<open>fread\<close>.\<close>

fun is_pbkdf2 :: "event \<Rightarrow> bool" where
  "is_pbkdf2 (Pbkdf2 pw salt c n) = True"
| "is_pbkdf2 ev = False"

fun is_fread :: "event \<Rightarrow> bool" where
  "is_fread (Fread n) = True"
| "is_fread ev = False"

text \<open>The buffers \<open>memset\<close> is applied to, in order.\<close>

fun memset_buffers :: "event list \<Rightarrow> buf_id list" where
  "memset_buffers [] = []"
| "memset_buffers (Memset b n # tr) = b # memset_buffers tr"
| "memset_buffers (ev # tr) = memset_buffers tr"

text \<open>
  Every release of one of the buffers \<open>B\<close> finds the buffer holding zero bytes only.
\<close>

fun wiped_on_release :: "buf_id list \<Rightarrow> event list \<Rightarrow> bool" where
  "wiped_on_release B [] = True"
| "wiped_on_release B (Free b bs # tr) =
     ((b \<in> set B \<longrightarrow> (\<forall>x \<in> set bs. x = 0)) \<and> wiped_on_release B tr)"
| "wiped_on_release B (ev # tr) = wiped_on_release B tr"

text \<open>
  A run gets as far as the prompts: the option loop ends with parameters \<open>p\<close> and the
  four allocations succeed.
\<close>

definition prompted :: "env \<Rightarrow> params \<Rightarrow> bool" where
  "prompted e p =
     ((case parse_options e (opts e) default_params (init_state e) of
         Inl r \<Rightarrow> False
       | Inr p' \<Rightarrow> p' = p) \<and>
      malloc_bufhex e \<and> malloc_buf e \<and> malloc_salt e \<and> malloc_salthex e)"

text \<open>The state when the four allocations have succeeded.\<close>

definition allocated :: "env \<Rightarrow> params \<Rightarrow> state" where
  "allocated e p =
     malloc e Salthex (unat (saltlen p * 2 + 1))
       (malloc e Salt (unat (saltlen p))
          (malloc e Buf (unat (buflen p))
             (malloc e Bufhex (unat (buflen p * 2 + 1)) (init_state e))))"

text \<open>A password entry with one trailing newline removed, as the spec words it.\<close>

definition strip_newline :: "byte list \<Rightarrow> byte list" where
  "strip_newline l = (if l \<noteq> [] \<and> last l = newline then butlast l else l)"

definition nul_free :: "byte list option \<Rightarrow> bool" where
  "nul_free r = (case r of None \<Rightarrow> True | Some l \<Rightarrow> 0 \<notin> set l)"

definition hex_alphabet :: "byte list" where
  "hex_alphabet = bytes_of ''0123456789ABCDEF''"

section \<open>Concrete runs\<close>

definition cooked :: termios where
  "cooked = \<lparr>c_iflag = 0x500, c_oflag = 0x5, c_cflag = 0xbf, c_lflag = 0x8a3b, c_cc = []\<rparr>"

text \<open>A stand-in for the primitive: it reports success and stores a byte pattern.\<close>

definition pattern_kdf ::
  "byte list \<Rightarrow> byte list \<Rightarrow> 32 word \<Rightarrow> nat \<Rightarrow> int \<times> (nat \<Rightarrow> byte)" where
  "pattern_kdf pw salt c n = (0, \<lambda>i. of_nat (length pw) + of_nat i + 0xC0)"

definition failing_kdf ::
  "byte list \<Rightarrow> byte list \<Rightarrow> 32 word \<Rightarrow> nat \<Rightarrow> int \<times> (nat \<Rightarrow> byte)" where
  "failing_kdf pw salt c n = (5, \<lambda>i. 0x77)"

text \<open>
  \<open>grub-pbkdf2 -l 2 -s 2\<close> on a terminal, the password \<open>pw\<close> typed twice, the random
  device delivering \<open>01 EF 33\<close>.
\<close>

definition run_ok :: env where
  "run_ok =
     \<lparr>opts = [(CHR ''l'', 2), (CHR ''s'', 2)],
      malloc_bufhex = True, malloc_buf = True, malloc_salt = True, malloc_salthex = True,
      garbage = (\<lambda>b i. 0xAA),
      tty_open = True, tcgetattr_res = Some cooked,
      tcset_modify_ok = True, tcset_restore_ok = True,
      line1 = Some (bytes_of ''pw'' @ [newline]), line2 = Some (bytes_of ''pw'' @ [newline]),
      random_open = True, random_data = [0x01, 0xEF, 0x33],
      kdf = pattern_kdf,
      package_bugreport = ''bug-grub@gnu.org'', package_name = ''GRUB'',
      package_version = ''1.97''\<rparr>"

definition run_iteration_flag :: env where
  "run_iteration_flag = run_ok\<lparr>opts := [(CHR ''c'', 5), (CHR ''l'', 2), (CHR ''s'', 2)]\<rparr>"

definition run_no_tty :: env where
  "run_no_tty = run_ok\<lparr>tty_open := False\<rparr>"

definition run_mismatch :: env where
  "run_mismatch = run_ok\<lparr>line2 := Some (bytes_of ''px'' @ [newline])\<rparr>"

definition run_nul_bytes :: env where
  "run_nul_bytes =
     run_ok\<lparr>line1 := Some (bytes_of ''a'' @ [0] @ bytes_of ''b'' @ [newline]),
            line2 := Some (bytes_of ''a'' @ [0] @ bytes_of ''c'' @ [newline])\<rparr>"

definition run_nul_mismatch :: env where
  "run_nul_mismatch = run_ok\<lparr>line1 := Some (bytes_of ''a'' @ [0] @ bytes_of ''b'' @ [newline])\<rparr>"

definition run_empty_password :: env where
  "run_empty_password = run_ok\<lparr>line1 := Some [newline], line2 := Some [newline]\<rparr>"

definition run_short_read :: env where
  "run_short_read = run_ok\<lparr>random_data := [0x01]\<rparr>"

definition run_no_random :: env where
  "run_no_random = run_ok\<lparr>random_open := False\<rparr>"

definition run_kdf_error :: env where
  "run_kdf_error = run_ok\<lparr>kdf := failing_kdf\<rparr>"

definition run_restore_fails :: env where
  "run_restore_fails = run_ok\<lparr>tcset_restore_ok := False\<rparr>"

definition run_params :: params where
  "run_params = \<lparr>c_count = 10000, buflen = 2, saltlen = 2\<rparr>"

section \<open>Library calls: projections\<close>

lemma emit_simps:
  "trace (emit ev st) = trace st @ [ev]"
  "heap (emit ev st) = heap st"
  "tty_attr (emit ev st) = tty_attr st"
  by (simp_all add: emit_def)

lemma store_simps:
  "trace (store b bs st) = trace st"
  "heap (store b bs st) = (heap st)(b := Some bs)"
  "tty_attr (store b bs st) = tty_attr st"
  by (simp_all add: store_def)

lemma malloc_simps:
  "trace (malloc e b n st) = trace st"
  "heap (malloc e b n st) = (heap st)(b := Some (map (garbage e b) [0..<n]))"
  "tty_attr (malloc e b n st) = tty_attr st"
  by (simp_all add: malloc_def store_simps)

lemma printf_simps:
  "trace (printf s st) = trace st @ [Write Stdout s]"
  "heap (printf s st) = heap st"
  "tty_attr (printf s st) = tty_attr st"
  by (simp_all add: printf_def emit_simps)

lemma memset_simps:
  "trace (memset b n st) = trace st @ [Memset b n]"
  "heap (memset b n st) =
     (heap st)(b := Some (replicate (min n (length (buffer st b))) 0 @ drop n (buffer st b)))"
  "tty_attr (memset b n st) = tty_attr st"
  by (simp_all add: memset_def emit_simps store_simps)

lemma free_simps:
  "trace (free b st) = trace st @ [Free b (buffer st b)]"
  "heap (free b st) = (heap st)(b := None)"
  "tty_attr (free b st) = tty_attr st"
  by (simp_all add: free_def emit_simps)

lemma tcsetattr_simps:
  "trace (tcsetattr ok fd a st) = trace st @ [Tcsetattr fd a]"
  "heap (tcsetattr ok fd a st) = heap st"
  "tty_attr (tcsetattr ok fd a st) = (if ok then Some a else tty_attr st)"
  by (simp_all add: tcsetattr_def emit_simps)

lemma run_ops_simps:
  "run_ops [] st = st"
  "run_ops (f # fs) st = run_ops fs (f st)"
  by (simp_all add: run_ops_def)

lemma release_all_simps:
  "trace (release_all st) =
     trace st @ [Free Buf (buffer st Buf), Free Bufhex (buffer st Bufhex),
                 Free Salthex (buffer st Salthex), Free Salt (buffer st Salt)]"
  "heap (release_all st) = (heap st)(Buf := None, Bufhex := None, Salthex := None, Salt := None)"
  "tty_attr (release_all st) = tty_attr st"
  by (simp_all add: release_all_def run_ops_simps free_simps buffer_def)

lemma buffer_simps:
  "buffer (emit ev st) b = buffer st b"
  "buffer (printf s st) b = buffer st b"
  "buffer (tcsetattr ok fd a st) b = buffer st b"
  "buffer (store b' bs st) b = (if b = b' then bs else buffer st b)"
  "buffer (malloc e b' n st) b = (if b = b' then map (garbage e b') [0..<n] else buffer st b)"
  "buffer (free b' st) b = (if b = b' then [] else buffer st b)"
  "buffer (memset b' n st) b =
     (if b = b' then replicate (min n (length (buffer st b))) 0 @ drop n (buffer st b)
      else buffer st b)"
  by (simp_all add: buffer_def emit_simps printf_simps tcsetattr_simps store_simps free_simps
        memset_simps malloc_simps)

lemmas state_simps = emit_simps store_simps malloc_simps printf_simps memset_simps free_simps
  tcsetattr_simps run_ops_simps release_all_simps buffer_simps

lemma main_prompted: "prompted e p \<Longrightarrow> main e = echo_off e p (allocated e p)"
  by (simp add: prompted_def main_def allocate_def allocated_def Let_def split: sum.splits)

lemma takeWhile_snoc_nul:
  "takeWhile (\<lambda>b. b \<noteq> 0) (xs @ (0::byte) # ys) = takeWhile (\<lambda>b. b \<noteq> 0) xs"
  by (induction xs) simp_all

lemma cstr_snoc_nul: "cstr (xs @ 0 # ys) = cstr xs"
  by (simp add: cstr_def takeWhile_snoc_nul)

lemma chomp_eq:
  "chomp l = (if l \<noteq> [] \<and> last l = newline then butlast l @ [0, 0] else l @ [0])"
  by (cases l rule: rev_cases) (simp_all add: chomp_def Let_def nth_append list_update_append)

lemma cstr_chomp: "cstr (chomp l) = cstr (strip_newline l)"
  using takeWhile_snoc_nul [of "butlast l" "[0]"] takeWhile_snoc_nul [of l "[]"]
  by (simp add: chomp_eq strip_newline_def cstr_def)

lemma restore_trace:
  "trace (restore e inS ch s st) =
     trace st @ (case s of Some a \<Rightarrow> if ch then [Tcsetattr inS a] else [] | None \<Rightarrow> [])"
  by (simp add: restore_def tcsetattr_simps split: option.splits)

lemma restore_heap:
  "heap (restore e inS ch s st) = heap st"
  "buffer (restore e inS ch s st) b = buffer st b"
  by (simp_all add: restore_def buffer_def tcsetattr_simps split: option.splits)

lemma restore_tty_attr:
  "tty_attr (restore e inS ch s st) =
     (case s of Some a \<Rightarrow> if ch \<and> tcset_restore_ok e then Some a else tty_attr st
      | None \<Rightarrow> tty_attr st)"
  by (simp add: restore_def tcsetattr_simps split: option.splits)

lemmas restore_simps = restore_trace restore_heap restore_tty_attr

lemma tty_calls_append: "tty_calls (xs @ ys) = tty_calls xs @ tty_calls ys"
  by (simp add: tty_calls_def)

lemma wipe_all_simps:
  "tty_attr (wipe_all p st) = tty_attr st"
  "tty_calls (trace (wipe_all p st)) = tty_calls (trace st)"
  by (simp_all add: wipe_all_def state_simps tty_calls_append) (simp_all add: tty_calls_def)

lemma derive_tty:
  "tty_attr (snd (derive e p st)) = tty_attr st"
  "tty_calls (trace (snd (derive e p st))) = tty_calls (trace st)"
  by (simp_all add: derive_def Let_def case_prod_beta state_simps wipe_all_simps tty_calls_append)
     (simp_all add: tty_calls_def)

lemma read_salt_tty:
  "tty_attr (snd (read_salt e p st)) = tty_attr st"
  "tty_calls (trace (snd (read_salt e p st))) = tty_calls (trace st)"
  by (simp_all add: read_salt_def Let_def state_simps derive_tty tty_calls_append)
     (simp_all add: tty_calls_def)


lemma reenter_tty:
  "tty_attr (snd (reenter e p inS ch s st)) = tty_attr (restore e inS ch s st)"
  "tty_calls (trace (snd (reenter e p inS ch s st))) =
     tty_calls (trace st) @ Getline Stdin #
       (case s of Some a \<Rightarrow> if ch then [Tcsetattr inS a] else [] | None \<Rightarrow> [])"
  by (simp_all add: reenter_def Let_def state_simps restore_simps read_salt_tty tty_calls_append
        split: option.splits)
     (auto simp: tty_calls_def)

lemma enter_tty:
  "tty_attr (snd (enter e p inS ch s st)) = tty_attr (restore e inS ch s st)"
  "tty_calls (trace (snd (enter e p inS ch s st))) =
     tty_calls (trace st) @ Getline Stdin #
       (case line1 e of None \<Rightarrow> [] | Some l \<Rightarrow> [Getline Stdin]) @
       (case s of Some a \<Rightarrow> if ch then [Tcsetattr inS a] else [] | None \<Rightarrow> [])"
  by (simp_all add: enter_def Let_def state_simps restore_simps reenter_tty tty_calls_append
        split: option.splits)
     (auto simp: tty_calls_def)

lemma echo_off_tty_attr:
  assumes "tcset_restore_ok e" and "tty_attr st = tcgetattr_res e"
  shows "tty_attr (snd (echo_off e p st)) = tcgetattr_res e"
  using assms
  by (simp add: echo_off_def Let_def enter_tty restore_simps state_simps split: option.splits)

lemma echo_off_tty_calls:
  assumes "tcgetattr_res e = Some a" and "tcset_modify_ok e"
  shows "tty_calls (trace (snd (echo_off e p st))) =
     tty_calls (trace st) @
       Tcsetattr (if tty_open e then Tty else Stdin)
         (a\<lparr>c_lflag := c_lflag a AND NOT (ECHO OR ISIG)\<rparr>) #
       Getline Stdin # (case line1 e of None \<Rightarrow> [] | Some l \<Rightarrow> [Getline Stdin]) @
       [Tcsetattr (if tty_open e then Tty else Stdin) a]"
  using assms
  by (simp add: echo_off_def Let_def enter_tty state_simps tty_calls_append)
     (simp add: tty_calls_def)

lemma usage_state:
  "tty_attr (snd (usage n e st)) = tty_attr st"
  "heap (snd (usage n e st)) = heap st"
  by (simp_all add: usage_def state_simps)

lemma parse_options_state:
  "parse_options e os p st = Inl r \<Longrightarrow> tty_attr (snd r) = tty_attr st \<and> heap (snd r) = heap st"
  by (induction os arbitrary: p) (auto simp: usage_state state_simps split: if_splits)

lemma allocate_tty_attr:
  assumes "tcset_restore_ok e" and "tty_attr st = tcgetattr_res e"
  shows "tty_attr (snd (allocate e p st)) = tcgetattr_res e"
  using assms by (simp add: allocate_def Let_def state_simps echo_off_tty_attr)

lemma main_tty_attr:
  assumes "tcset_restore_ok e"
  shows "tty_attr (snd (main e)) = tcgetattr_res e"
proof (cases "parse_options e (opts e) default_params (init_state e)")
  case (Inl r)
  have "tty_attr (init_state e) = tcgetattr_res e"
    by (simp add: init_state_def)
  with parse_options_state [OF Inl] show ?thesis
    by (simp add: main_def Inl)
next
  case (Inr p)
  have "tty_attr (init_state e) = tcgetattr_res e"
    by (simp add: init_state_def)
  from allocate_tty_attr [OF assms this] show ?thesis
    by (simp add: main_def Inr)
qed

lemma allocated_simps:
  "trace (allocated e p) = []"
  "tty_attr (allocated e p) = tcgetattr_res e"
  by (simp_all add: allocated_def state_simps init_state_def)

section \<open>The hex encoder: lemmas\<close>

lemma mask15: "(15::byte) = mask 4"
  by (simp add: mask_eq_exp_minus_1)

lemma mask240: "(240::byte) = push_bit 4 (mask 4)"
  by (simp add: mask_eq_exp_minus_1)

lemma low_nibble_take_bit: "low_nibble b = take_bit 4 b"
  unfolding low_nibble_def mask15 by (simp add: take_bit_eq_mask)

lemma high_nibble_drop_bit: "high_nibble b = drop_bit 4 b"
  unfolding high_nibble_def mask240
  by (rule bit_word_eqI) (auto simp: bit_simps dest: bit_imp_le_length)

lemma nibbles_join: "push_bit 4 (high_nibble b) OR low_nibble b = b"
  unfolding high_nibble_drop_bit low_nibble_take_bit
  by (rule bit_word_eqI) (auto simp: bit_simps)

lemma unat_high_nibble: "unat (high_nibble b) = unat b div 16"
  by (simp add: high_nibble_drop_bit unat_drop_bit_eq drop_bit_eq_div unat_div)

lemma unat_low_nibble: "unat (low_nibble b) = unat b mod 16"
  by (simp add: low_nibble_take_bit unsigned_take_bit_eq take_bit_eq_mod unat_mod)

lemma high_nibble_less: "high_nibble b < 16"
proof -
  have "unat b < 256" using unsigned_less [of b, where 'a = nat] by simp
  then have "unat b div 16 < 16" by simp
  then show ?thesis by (simp add: word_less_nat_alt unat_high_nibble)
qed

lemma low_nibble_less: "low_nibble b < 16"
  by (simp add: word_less_nat_alt unat_low_nibble)

lemma nibble_cases:
  assumes "(v::byte) < 16"
  shows "v \<in> {0, 1, 2, 3, 4, 5, 6, 7, 8, 9, 10, 11, 12, 13, 14, 15}"
proof -
  from assms have "unat v < 16" by (simp add: word_less_nat_alt)
  then have "unat v \<in> {0, 1, 2, 3, 4, 5, 6, 7, 8, 9, 10, 11, 12, 13, 14, 15}"
    by simp arith
  then have "of_nat (unat v) \<in> (of_nat ` {0, 1, 2, 3, 4, 5, 6, 7, 8, 9, 10, 11, 12, 13, 14, 15} :: byte set)"
    by (rule imageI)
  then show ?thesis by simp
qed

lemma hex_digit_nibble:
  assumes "(v::byte) < 16"
  shows "hex_digit v = hex_alphabet ! unat v" and "hex_digit v \<noteq> 0"
    and "hex_digit v \<in> set hex_alphabet" and "unhex_digit (hex_digit v) = Some v"
  using nibble_cases [OF assms]
  by (auto simp: hex_digit_def hex_alphabet_def bytes_of_def unhex_digit_def)

lemma cstr_hexify_Cons:
  "cstr (hexify (b # bin)) = hex_digit (high_nibble b) # hex_digit (low_nibble b) # cstr (hexify bin)"
  by (simp add: cstr_def hex_digit_nibble(2) high_nibble_less low_nibble_less)

lemma cstr_hexify_Nil: "cstr (hexify []) = []"
  by (simp add: cstr_def)

lemma length_cstr_hexify: "length (cstr (hexify bin)) = 2 * length bin"
  by (induction bin) (simp_all only: cstr_hexify_Cons cstr_hexify_Nil, simp_all)

lemma set_cstr_hexify: "set (cstr (hexify bin)) \<subseteq> set hex_alphabet"
  by (induction bin)
     (simp_all only: cstr_hexify_Cons cstr_hexify_Nil,
      simp_all add: hex_digit_nibble(3) high_nibble_less low_nibble_less)

lemma unhexify_hexify: "unhexify (cstr (hexify bin)) = Some bin"
  by (induction bin)
     (simp_all only: cstr_hexify_Cons cstr_hexify_Nil,
      simp_all add: hex_digit_nibble(4) high_nibble_less low_nibble_less nibbles_join)

lemma nth_cstr_hexify:
  "i < length bin \<Longrightarrow>
     cstr (hexify bin) ! (2 * i) = hex_alphabet ! (unat (bin ! i) div 16) \<and>
     cstr (hexify bin) ! (2 * i + 1) = hex_alphabet ! (unat (bin ! i) mod 16)"
proof (induction bin arbitrary: i)
  case Nil
  then show ?case by simp
next
  case (Cons b bin)
  show ?case
  proof (cases i)
    case 0
    then show ?thesis
      unfolding cstr_hexify_Cons
      by (simp add: hex_digit_nibble(1) high_nibble_less low_nibble_less
            unat_high_nibble unat_low_nibble)
  next
    case (Suc j)
    with Cons.prems have "j < length bin" by simp
    from Cons.IH [OF this] Suc show ?thesis
      unfolding cstr_hexify_Cons by simp
  qed
qed

text \<open>
  C8. For every byte sequence \<open>bin\<close> of length \<open>L\<close>, the string \<open>hexify\<close> stores has
  exactly \<open>2L\<close> characters, all drawn from \<open>0-9A-F\<close>; the characters at positions
  \<open>2i\<close> and \<open>2i+1\<close> are the digits of the high and of the low nibble of byte \<open>i\<close>
  (values 0 to 9 as \<open>'0'\<close> to \<open>'9'\<close>, 10 to 15 as \<open>'A'\<close> to \<open>'F'\<close>); and decoding
  the string gives \<open>bin\<close> back.
\<close>

theorem hexify_encoding:
  "length (cstr (hexify bin)) = 2 * length bin \<and>
   set (cstr (hexify bin)) \<subseteq> set (bytes_of ''0123456789ABCDEF'') \<and>
   (\<forall>i < length bin.
      cstr (hexify bin) ! (2 * i) = bytes_of ''0123456789ABCDEF'' ! (unat (bin ! i) div 16) \<and>
      cstr (hexify bin) ! (2 * i + 1) = bytes_of ''0123456789ABCDEF'' ! (unat (bin ! i) mod 16)) \<and>
   unhexify (cstr (hexify bin)) = Some bin"
  using length_cstr_hexify [of bin] set_cstr_hexify [of bin] unhexify_hexify [of bin]
    nth_cstr_hexify [of _ bin]
  unfolding hex_alphabet_def by blast

text \<open>C8, witness: the bytes \<open>00 9A FF\<close>.\<close>

theorem hexify_encoding_witness:
  "cstr (hexify [0x00, 0x9A, 0xFF]) = bytes_of ''009AFF'' \<and>
   unhexify (bytes_of ''009AFF'') = Some [0x00, 0x9A, 0xFF] \<and>
   (1::nat) < length [0x00, 0x9A, 0xFF :: byte] \<and>
   cstr (hexify [0x00, 0x9A, 0xFF]) ! 2 = of_char CHR ''9'' \<and>
   cstr (hexify [0x00, 0x9A, 0xFF]) ! 3 = of_char CHR ''A''"
  using hexify_encoding [of "[0x00, 0x9A, 0xFF]"]
  by (simp add: cstr_def hex_digit_def bytes_of_def unhex_digit_def high_nibble_def low_nibble_def)

section \<open>Confirmation of the password\<close>

lemma prints_credential_append:
  "prints_credential (xs @ ys) = (prints_credential xs \<or> prints_credential ys)"
  by (simp add: prints_credential_def)

lemma prints_credential_simps:
  "prints_credential [] = False"
  "prints_credential (ev # tr) = (is_credential_write ev \<or> prints_credential tr)"
  by (simp_all add: prints_credential_def)

lemma prompt_not_credential:
  "\<not> is_credential_write (Write Stdout (bytes_of ''Enter password: ''))"
  "\<not> is_credential_write (Write Stdout (newline # bytes_of ''Reenter password: ''))"
  "\<not> is_credential_write (Write Stdout [newline])"
  by (simp_all add: credential_tag_def bytes_of_def newline_def)

lemmas credential_simps = prints_credential_append prints_credential_simps prompt_not_credential

lemma restore_no_credential:
  "prints_credential (trace (restore e inS ch s st)) = prints_credential (trace st)"
  by (simp add: restore_trace credential_simps split: option.splits)

lemma reenter_mismatch:
  assumes "line2 e = Some l2" and "strcmp_differs (buffer st Pass1) (chomp l2)"
  shows "fst (reenter e p inS ch s st) = Fatal ''Passwords don't match'' []"
    and "prints_credential (trace (snd (reenter e p inS ch s st))) = prints_credential (trace st)"
  using assms
  by (simp_all add: reenter_def Let_def state_simps restore_heap restore_no_credential
        credential_simps del: is_credential_write.simps(1))

lemma enter_mismatch:
  assumes "line1 e = Some l1" and "line2 e = Some l2"
    and "strcmp_differs (chomp l1) (chomp l2)"
  shows "fst (enter e p inS ch s st) = Fatal ''Passwords don't match'' []"
    and "prints_credential (trace (snd (enter e p inS ch s st))) = prints_credential (trace st)"
  using assms
  by (simp_all add: enter_def Let_def state_simps reenter_mismatch credential_simps
        del: is_credential_write.simps(1))

lemma echo_off_mismatch:
  assumes "line1 e = Some l1" and "line2 e = Some l2"
    and "strcmp_differs (chomp l1) (chomp l2)"
  shows "fst (echo_off e p st) = Fatal ''Passwords don't match'' []"
    and "prints_credential (trace (snd (echo_off e p st))) = prints_credential (trace st)"
  by (simp_all add: echo_off_def Let_def state_simps enter_mismatch [OF assms]
        credential_simps split: option.splits)

text \<open>
  C3, as amended. The confirmation compares the two entries as C strings: when the entries,
  each with one trailing newline removed, differ before the first NUL byte of either, the
  run ends in the error \<open>Passwords don't match\<close> and no credential line is written.
\<close>

theorem mismatch_rejected:
  assumes "prompted e p" and "line1 e = Some l1" and "line2 e = Some l2"
    and "cstr (strip_newline l1) \<noteq> cstr (strip_newline l2)"
  shows "fst (main e) = Fatal ''Passwords don't match'' [] \<and>
         \<not> prints_credential (trace (snd (main e)))"
proof -
  have "strcmp_differs (chomp l1) (chomp l2)"
    using assms(4) by (simp add: strcmp_differs_def cstr_chomp)
  from echo_off_mismatch [OF assms(2,3) this, of p "allocated e p"] show ?thesis
    by (simp add: main_prompted [OF assms(1)] allocated_simps prints_credential_simps)
qed


section \<open>The empty password\<close>

lemma wipe_all_trace_mono: "ev \<in> set (trace st) \<Longrightarrow> ev \<in> set (trace (wipe_all p st))"
  by (simp add: wipe_all_def state_simps)


lemma derive_trace_mono: "ev \<in> set (trace st) \<Longrightarrow> ev \<in> set (trace (snd (derive e p st)))"
  by (simp add: derive_def Let_def case_prod_beta state_simps wipe_all_trace_mono)



lemma read_salt_trace_mono:
  "ev \<in> set (trace st) \<Longrightarrow> ev \<in> set (trace (snd (read_salt e p st)))"
  by (simp add: read_salt_def Let_def state_simps derive_trace_mono)









section \<open>Wiping before release\<close>

lemma wiped_on_release_append:
  "wiped_on_release B (xs @ ys) = (wiped_on_release B xs \<and> wiped_on_release B ys)"
  by (induction B xs rule: wiped_on_release.induct) auto

lemma zeros_after_memset:
  "(\<forall>x \<in> set (replicate k (0::byte)) \<union> A. x = 0) = (\<forall>x \<in> A. x = 0)"
  by auto

lemma cstr_nul_free: "0 \<notin> set xs \<Longrightarrow> cstr (xs @ 0 # ys) = xs"
  by (induction xs) (simp_all add: cstr_def)

lemma chomp_tail_zero:
  assumes "0 \<notin> set l"
  shows "\<forall>x \<in> set (drop (strlen (chomp l)) (chomp l)). x = 0"
proof (cases "l \<noteq> [] \<and> last l = newline")
  case True
  from assms have "0 \<notin> set (butlast l)"
    by (meson in_set_butlastD)
  from cstr_nul_free [OF this, of "[0]"] True show ?thesis
    by (simp add: chomp_eq strlen_def)
next
  case False
  with cstr_nul_free [OF assms, of "[]"] show ?thesis
    by (auto simp: chomp_eq strlen_def)
qed

lemma wipe_all_passwords:
  "wiped_on_release [Pass1, Pass2] (trace (wipe_all p st)) =
     wiped_on_release [Pass1, Pass2] (trace st)"
  "heap (wipe_all p st) Pass1 = heap st Pass1"
  "heap (wipe_all p st) Pass2 = heap st Pass2"
  by (simp_all add: wipe_all_def state_simps wiped_on_release_append)

lemma derive_passwords:
  assumes "\<forall>x \<in> set (drop (strlen (buffer st Pass1)) (buffer st Pass1)). x = 0"
  shows "wiped_on_release [Pass1, Pass2] (trace (snd (derive e p st))) =
           wiped_on_release [Pass1, Pass2] (trace st)"
    and "heap (snd (derive e p st)) Pass1 = None"
    and "heap (snd (derive e p st)) Pass2 = heap st Pass2"
  using assms
  by (simp_all add: derive_def Let_def case_prod_beta state_simps wipe_all_passwords
        wiped_on_release_append zeros_after_memset)

lemma read_salt_passwords:
  assumes "\<forall>x \<in> set (drop (strlen (buffer st Pass1)) (buffer st Pass1)). x = 0"
  shows "wiped_on_release [Pass1, Pass2] (trace (snd (read_salt e p st))) =
           wiped_on_release [Pass1, Pass2] (trace st)"
    and "heap (snd (read_salt e p st)) Pass1 = None"
    and "heap (snd (read_salt e p st)) Pass2 = heap st Pass2"
  using assms
  by (simp_all add: read_salt_def Let_def state_simps derive_passwords wiped_on_release_append
        zeros_after_memset)

lemma restore_wiped:
  "wiped_on_release B (trace (restore e inS ch s st)) = wiped_on_release B (trace st)"
  by (simp add: restore_trace wiped_on_release_append split: option.splits)

lemma reenter_passwords:
  assumes "\<forall>x \<in> set (drop (strlen (buffer st Pass1)) (buffer st Pass1)). x = 0"
    and "nul_free (line2 e)"
  shows "wiped_on_release [Pass1, Pass2] (trace (snd (reenter e p inS ch s st))) =
           wiped_on_release [Pass1, Pass2] (trace st)"
    and "heap st Pass2 = None \<Longrightarrow> heap (snd (reenter e p inS ch s st)) Pass1 = None \<and>
           heap (snd (reenter e p inS ch s st)) Pass2 = None"
proof -
  show "wiped_on_release [Pass1, Pass2] (trace (snd (reenter e p inS ch s st))) =
           wiped_on_release [Pass1, Pass2] (trace st)"
  proof (cases "line2 e")
    case None
    with assms(1) show ?thesis
      by (simp add: reenter_def Let_def state_simps restore_heap restore_wiped
            wiped_on_release_append zeros_after_memset)
  next
    case (Some l2)
    with assms(2) have "0 \<notin> set l2"
      by (simp add: nul_free_def)
    from chomp_tail_zero [OF this] assms(1) Some
    show ?thesis
      by (simp add: reenter_def Let_def state_simps restore_heap restore_wiped
            wiped_on_release_append read_salt_passwords zeros_after_memset)
  qed
  show "heap st Pass2 = None \<Longrightarrow> heap (snd (reenter e p inS ch s st)) Pass1 = None \<and>
           heap (snd (reenter e p inS ch s st)) Pass2 = None"
    using assms(1)
    by (simp add: reenter_def Let_def state_simps restore_heap read_salt_passwords
          split: option.splits)
qed

lemma enter_passwords:
  assumes "nul_free (line1 e)" and "nul_free (line2 e)"
  shows "wiped_on_release [Pass1, Pass2] (trace (snd (enter e p inS ch s st))) =
           wiped_on_release [Pass1, Pass2] (trace st)"
    and "heap st Pass1 = None \<Longrightarrow> heap st Pass2 = None \<Longrightarrow>
           heap (snd (enter e p inS ch s st)) Pass1 = None \<and>
           heap (snd (enter e p inS ch s st)) Pass2 = None"
proof -
  have tail: "\<forall>x \<in> set (drop (strlen (buffer (store Pass1 (chomp l) st') Pass1))
                  (buffer (store Pass1 (chomp l) st') Pass1)). x = 0"
    if "line1 e = Some l" for l st'
    using chomp_tail_zero [of l] assms(1) that by (simp add: nul_free_def state_simps)
  show "wiped_on_release [Pass1, Pass2] (trace (snd (enter e p inS ch s st))) =
           wiped_on_release [Pass1, Pass2] (trace st)"
  proof (cases "line1 e")
    case None
    then show ?thesis
      by (simp add: enter_def Let_def state_simps restore_wiped wiped_on_release_append)
  next
    case (Some l)
    from reenter_passwords(1) [OF tail [OF Some] assms(2)] Some show ?thesis
      by (simp add: enter_def Let_def state_simps wiped_on_release_append)
  qed
  show "heap st Pass1 = None \<Longrightarrow> heap st Pass2 = None \<Longrightarrow>
           heap (snd (enter e p inS ch s st)) Pass1 = None \<and>
           heap (snd (enter e p inS ch s st)) Pass2 = None"
  proof (cases "line1 e")
    case None
    assume "heap st Pass1 = None" and "heap st Pass2 = None"
    with None show ?thesis
      by (simp add: enter_def Let_def state_simps restore_heap)
  next
    case (Some l)
    assume "heap st Pass1 = None" and "heap st Pass2 = None"
    with reenter_passwords(2) [OF tail [OF Some] assms(2)] Some show ?thesis
      by (simp add: enter_def Let_def state_simps)
  qed
qed


lemma echo_off_passwords:
  assumes "nul_free (line1 e)" and "nul_free (line2 e)"
  shows "wiped_on_release [Pass1, Pass2] (trace (snd (echo_off e p st))) =
           wiped_on_release [Pass1, Pass2] (trace st)"
    and "heap st Pass1 = None \<Longrightarrow> heap st Pass2 = None \<Longrightarrow>
           heap (snd (echo_off e p st)) Pass1 = None \<and> heap (snd (echo_off e p st)) Pass2 = None"
  by (simp_all add: echo_off_def Let_def state_simps enter_passwords [OF assms]
        wiped_on_release_append split: option.splits)

lemma allocate_passwords:
  assumes "nul_free (line1 e)" and "nul_free (line2 e)"
  shows "wiped_on_release [Pass1, Pass2] (trace (snd (allocate e p st))) =
           wiped_on_release [Pass1, Pass2] (trace st)"
    and "heap st Pass1 = None \<Longrightarrow> heap st Pass2 = None \<Longrightarrow>
           heap (snd (allocate e p st)) Pass1 = None \<and> heap (snd (allocate e p st)) Pass2 = None"
  by (simp_all add: allocate_def Let_def state_simps echo_off_passwords [OF assms]
        wiped_on_release_append)

lemma usage_wiped:
  "wiped_on_release B (trace (snd (usage n e st))) = wiped_on_release B (trace st)"
  by (simp add: usage_def state_simps wiped_on_release_append)

lemma parse_options_exit:
  "parse_options e os p st = Inl r \<Longrightarrow>
     (\<exists>n. fst r = Exit n) \<and>
     wiped_on_release B (trace (snd r)) = wiped_on_release B (trace st)"
  by (induction os arbitrary: p)
     (auto simp: usage_def usage_wiped state_simps wiped_on_release_append split: if_splits)

lemma zeros_replicate: "(\<forall>x \<in> set (replicate k (0::byte)). x = 0) = True"
  by auto

lemma wipe_all_secrets:
  assumes "length (buffer st Buf) \<le> unat (buflen p)"
    and "length (buffer st Salt) \<le> unat (saltlen p)"
  shows "wiped_on_release [Buf, Salt] (trace (wipe_all p st)) =
           wiped_on_release [Buf, Salt] (trace st)"
  using assms
  by (simp add: wipe_all_def state_simps wiped_on_release_append zeros_replicate)

lemma derive_secrets:
  assumes "length (buffer st Salt) \<le> unat (saltlen p)"
  shows "wiped_on_release [Buf, Salt] (trace (snd (derive e p st))) =
           wiped_on_release [Buf, Salt] (trace st)"
  using assms
  by (simp add: derive_def Let_def case_prod_beta state_simps wipe_all_secrets
        wiped_on_release_append)

lemma read_salt_secrets:
  assumes "fst (read_salt e p st) = Fatal ''Cryptographic error number %d'' [code]"
    and "length (buffer st Salt) \<le> unat (saltlen p)"
  shows "wiped_on_release [Buf, Salt] (trace (snd (read_salt e p st))) =
           wiped_on_release [Buf, Salt] (trace st)"
  using assms
  by (auto simp: read_salt_def Let_def state_simps derive_secrets wiped_on_release_append
        split: if_splits)

lemma reenter_secrets:
  assumes "fst (reenter e p inS ch s st) = Fatal ''Cryptographic error number %d'' [code]"
    and "length (buffer st Salt) \<le> unat (saltlen p)"
  shows "wiped_on_release [Buf, Salt] (trace (snd (reenter e p inS ch s st))) =
           wiped_on_release [Buf, Salt] (trace st)"
  using assms
  by (auto simp: reenter_def Let_def state_simps restore_heap restore_wiped read_salt_secrets
        wiped_on_release_append split: option.splits if_splits)

lemma enter_secrets:
  assumes "fst (enter e p inS ch s st) = Fatal ''Cryptographic error number %d'' [code]"
    and "length (buffer st Salt) \<le> unat (saltlen p)"
  shows "wiped_on_release [Buf, Salt] (trace (snd (enter e p inS ch s st))) =
           wiped_on_release [Buf, Salt] (trace st)"
  using assms
  by (auto simp: enter_def Let_def state_simps reenter_secrets wiped_on_release_append
        split: option.splits)

lemma echo_off_secrets:
  assumes "fst (echo_off e p st) = Fatal ''Cryptographic error number %d'' [code]"
    and "length (buffer st Salt) \<le> unat (saltlen p)"
  shows "wiped_on_release [Buf, Salt] (trace (snd (echo_off e p st))) =
           wiped_on_release [Buf, Salt] (trace st)"
  using assms
  by (auto simp: echo_off_def Let_def state_simps enter_secrets wiped_on_release_append
        split: option.splits)

lemma allocate_secrets:
  assumes "fst (allocate e p st) = Fatal ''Cryptographic error number %d'' [code]"
  shows "wiped_on_release [Buf, Salt] (trace (snd (allocate e p st))) =
           wiped_on_release [Buf, Salt] (trace st)"
  using assms
  by (auto simp: allocate_def Let_def state_simps echo_off_secrets split: if_splits)

lemma wipe_all_released:
  assumes "length (buffer st Buf) = unat (buflen p)"
    and "length (buffer st Salt) = unat (saltlen p)"
  shows "heap (wipe_all p st) Buf = None" and "heap (wipe_all p st) Salt = None"
    and "Free Buf (replicate (unat (buflen p)) 0) \<in> set (trace (wipe_all p st))"
    and "Free Salt (replicate (unat (saltlen p)) 0) \<in> set (trace (wipe_all p st))"
  using assms by (simp_all add: wipe_all_def state_simps)

lemma derive_released:
  assumes "fst (derive e p st) = Fatal ''Cryptographic error number %d'' [code]"
    and "length (buffer st Salt) = unat (saltlen p)"
  shows "heap (snd (derive e p st)) Buf = None \<and> heap (snd (derive e p st)) Salt = None \<and>
         Free Buf (replicate (unat (buflen p)) 0) \<in> set (trace (snd (derive e p st))) \<and>
         Free Salt (replicate (unat (saltlen p)) 0) \<in> set (trace (snd (derive e p st)))"
  using assms
  by (auto simp: derive_def Let_def case_prod_beta state_simps wipe_all_released
        split: if_splits)

lemma read_salt_released:
  assumes "fst (read_salt e p st) = Fatal ''Cryptographic error number %d'' [code]"
    and "length (buffer st Salt) = unat (saltlen p)"
  shows "heap (snd (read_salt e p st)) Buf = None \<and> heap (snd (read_salt e p st)) Salt = None \<and>
         Free Buf (replicate (unat (buflen p)) 0) \<in> set (trace (snd (read_salt e p st))) \<and>
         Free Salt (replicate (unat (saltlen p)) 0) \<in> set (trace (snd (read_salt e p st)))"
  using assms
  by (auto simp: read_salt_def Let_def state_simps derive_released split: if_splits)

lemma reenter_released:
  assumes "fst (reenter e p inS ch s st) = Fatal ''Cryptographic error number %d'' [code]"
    and "length (buffer st Salt) = unat (saltlen p)"
  shows "heap (snd (reenter e p inS ch s st)) Buf = None \<and>
         heap (snd (reenter e p inS ch s st)) Salt = None \<and>
         Free Buf (replicate (unat (buflen p)) 0) \<in> set (trace (snd (reenter e p inS ch s st))) \<and>
         Free Salt (replicate (unat (saltlen p)) 0) \<in> set (trace (snd (reenter e p inS ch s st)))"
  using assms
  by (auto simp: reenter_def Let_def state_simps restore_heap read_salt_released
        split: option.splits if_splits)

lemma enter_released:
  assumes "fst (enter e p inS ch s st) = Fatal ''Cryptographic error number %d'' [code]"
    and "length (buffer st Salt) = unat (saltlen p)"
  shows "heap (snd (enter e p inS ch s st)) Buf = None \<and>
         heap (snd (enter e p inS ch s st)) Salt = None \<and>
         Free Buf (replicate (unat (buflen p)) 0) \<in> set (trace (snd (enter e p inS ch s st))) \<and>
         Free Salt (replicate (unat (saltlen p)) 0) \<in> set (trace (snd (enter e p inS ch s st)))"
  using assms
  by (auto simp: enter_def Let_def state_simps reenter_released split: option.splits)

lemma echo_off_released:
  assumes "fst (echo_off e p st) = Fatal ''Cryptographic error number %d'' [code]"
    and "length (buffer st Salt) = unat (saltlen p)"
  shows "heap (snd (echo_off e p st)) Buf = None \<and>
         heap (snd (echo_off e p st)) Salt = None \<and>
         Free Buf (replicate (unat (buflen p)) 0) \<in> set (trace (snd (echo_off e p st))) \<and>
         Free Salt (replicate (unat (saltlen p)) 0) \<in> set (trace (snd (echo_off e p st)))"
  using assms
  by (auto simp: echo_off_def Let_def state_simps enter_released split: option.splits)

lemma allocate_released:
  assumes "fst (allocate e p st) = Fatal ''Cryptographic error number %d'' [code]"
  shows "heap (snd (allocate e p st)) Buf = None \<and>
         heap (snd (allocate e p st)) Salt = None \<and>
         Free Buf (replicate (unat (buflen p)) 0) \<in> set (trace (snd (allocate e p st))) \<and>
         Free Salt (replicate (unat (saltlen p)) 0) \<in> set (trace (snd (allocate e p st)))"
  using assms
  by (auto simp: allocate_def Let_def state_simps echo_off_released split: if_splits)

lemma prompted_params:
  "prompted e p \<Longrightarrow> parse_options e (opts e) default_params (init_state e) = Inr p"
  by (simp add: prompted_def split: sum.splits)

text \<open>
  C1, as amended. When the entries hold no NUL byte, every password entry that was
  captured is released before the run ends, holding zero bytes only when it is released;
  and on the derivation-failure path the salt and the derived-key buffer are released
  before the run ends, each zero-filled over its whole length when it is released.
\<close>

theorem passwords_wiped_before_release:
  assumes "nul_free (line1 e)" and "nul_free (line2 e)"
  shows "wiped_on_release [Pass1, Pass2] (trace (snd (main e))) \<and>
         heap (snd (main e)) Pass1 = None \<and> heap (snd (main e)) Pass2 = None \<and>
         (fst (main e) = Fatal ''Cryptographic error number %d'' [code] \<longrightarrow>
          wiped_on_release [Buf, Salt] (trace (snd (main e))) \<and>
          heap (snd (main e)) Buf = None \<and> heap (snd (main e)) Salt = None \<and>
          (prompted e p \<longrightarrow>
           Free Buf (replicate (unat (buflen p)) 0) \<in> set (trace (snd (main e))) \<and>
           Free Salt (replicate (unat (saltlen p)) 0) \<in> set (trace (snd (main e)))))"
proof (cases "parse_options e (opts e) default_params (init_state e)")
  case (Inl r)
  have "trace (init_state e) = []" and "heap (init_state e) = (\<lambda>b. None)"
    by (simp_all add: init_state_def)
  with parse_options_exit [OF Inl] parse_options_state [OF Inl] show ?thesis
    by (auto simp: main_def Inl)
next
  case (Inr p')
  have init: "trace (init_state e) = []" "heap (init_state e) Pass1 = None"
    "heap (init_state e) Pass2 = None"
    by (simp_all add: init_state_def)
  have same: "p = p'" if "prompted e p"
    using prompted_params [OF that] Inr by simp
  from allocate_passwords [OF assms, where p = p' and st = "init_state e"]
    allocate_secrets [where e = e and p = p' and st = "init_state e" and code = code]
    allocate_released [where e = e and p = p' and st = "init_state e" and code = code]
    init same
  show ?thesis
    by (auto simp: main_def Inr)
qed

section \<open>Terminal attributes\<close>

text \<open>
  C4, as amended. After any run whose restoring \<open>tcsetattr\<close> succeeds, the terminal
  attributes equal their value before the run. When the modification succeeded, the saved
  attributes are installed exactly once, after the last read of a line: after the first read
  when that read fails, after the second read otherwise; no \<open>tcsetattr\<close> is issued
  between the two reads.
\<close>

theorem terminal_restored_once:
  "(tcset_restore_ok e \<longrightarrow> tty_attr (snd (main e)) = tcgetattr_res e) \<and>
   (prompted e p \<and> tcgetattr_res e = Some a \<and> tcset_modify_ok e \<longrightarrow>
      tty_calls (trace (snd (main e))) =
        Tcsetattr (if tty_open e then Tty else Stdin)
          (a\<lparr>c_lflag := c_lflag a AND NOT (ECHO OR ISIG)\<rparr>) #
        Getline Stdin # (case line1 e of None \<Rightarrow> [] | Some l \<Rightarrow> [Getline Stdin]) @
        [Tcsetattr (if tty_open e then Tty else Stdin) a])"
  using main_tty_attr [of e] echo_off_tty_calls [of e a p "allocated e p"]
  by (auto simp: main_prompted allocated_simps tty_calls_def)

section \<open>Concrete runs: results\<close>

lemmas run_defs = main_def allocate_def echo_off_def enter_def reenter_def read_salt_def derive_def
  release_all_def wipe_all_def run_ops_def restore_def tcsetattr_def printf_def free_def memset_def
  malloc_def store_def buffer_def emit_def init_state_def default_params_def chomp_def
  strcmp_differs_def strlen_def cstr_def bytes_of_def newline_def credential_line_def print_d_def
  hex_digit_def high_nibble_def low_nibble_def ECHO_def ISIG_def usage_def Let_def upt_conv_Cons
  cooked_def pattern_kdf_def failing_kdf_def run_params_def run_ok_def

lemma run_ok_result:
  "\<exists>h. main run_ok =
     (Exit 0,
      \<lparr>trace =
         [Fopen ''/dev/tty'', Tcgetattr Tty, Tcsetattr Tty (cooked\<lparr>c_lflag := 0x8a32\<rparr>),
          Write Stdout (bytes_of ''Enter password: ''), Getline Stdin,
          Write Stdout (newline # bytes_of ''Reenter password: ''), Getline Stdin,
          Tcsetattr Tty cooked, Write Stdout [newline],
          Memset Pass2 2, Free Pass2 [0, 0, 0, 0],
          Fopen ''/dev/random'', Fread 2, Fclose Opened,
          Pbkdf2 (bytes_of ''pw'') [0x01, 0xEF] 10000 2,
          Memset Pass1 2, Free Pass1 [0, 0, 0, 0],
          Write Stdout
            (bytes_of ''Your PBKDF2 is grub.pbkdf2.sha512.10000.01EF.C2C3'' @ [newline]),
          Memset Buf 2, Memset Bufhex 4, Free Buf [0, 0], Free Bufhex [0, 0, 0, 0, 0],
          Memset Salt 2, Memset Salthex 4, Free Salt [0, 0], Free Salthex [0, 0, 0, 0, 0]],
       heap = h, tty_attr = Some cooked\<rparr>)"
  by (simp add: run_defs)

lemma run_iteration_flag_result:
  "\<exists>h. main run_iteration_flag =
     (Exit 0,
      \<lparr>trace =
         [Fopen ''/dev/tty'', Tcgetattr Tty, Tcsetattr Tty (cooked\<lparr>c_lflag := 0x8a32\<rparr>),
          Write Stdout (bytes_of ''Enter password: ''), Getline Stdin,
          Write Stdout (newline # bytes_of ''Reenter password: ''), Getline Stdin,
          Tcsetattr Tty cooked, Write Stdout [newline],
          Memset Pass2 2, Free Pass2 [0, 0, 0, 0],
          Fopen ''/dev/random'', Fread 2, Fclose Opened,
          Pbkdf2 (bytes_of ''pw'') [0x01, 0xEF] 10000 2,
          Memset Pass1 2, Free Pass1 [0, 0, 0, 0],
          Write Stdout
            (bytes_of ''Your PBKDF2 is grub.pbkdf2.sha512.10000.01EF.C2C3'' @ [newline]),
          Memset Buf 2, Memset Bufhex 4, Free Buf [0, 0], Free Bufhex [0, 0, 0, 0, 0],
          Memset Salt 2, Memset Salthex 4, Free Salt [0, 0], Free Salthex [0, 0, 0, 0, 0]],
       heap = h, tty_attr = Some cooked\<rparr>)"
  by (simp add: run_defs run_iteration_flag_def)

lemma run_no_tty_result:
  "\<exists>h. main run_no_tty =
     (Exit 0,
      \<lparr>trace =
         [Fopen ''/dev/tty'', Tcgetattr Stdin, Tcsetattr Stdin (cooked\<lparr>c_lflag := 0x8a32\<rparr>),
          Write Stdout (bytes_of ''Enter password: ''), Getline Stdin,
          Write Stdout (newline # bytes_of ''Reenter password: ''), Getline Stdin,
          Tcsetattr Stdin cooked, Write Stdout [newline],
          Memset Pass2 2, Free Pass2 [0, 0, 0, 0],
          Fopen ''/dev/random'', Fread 2, Fclose Opened,
          Pbkdf2 (bytes_of ''pw'') [0x01, 0xEF] 10000 2,
          Memset Pass1 2, Free Pass1 [0, 0, 0, 0],
          Write Stdout
            (bytes_of ''Your PBKDF2 is grub.pbkdf2.sha512.10000.01EF.C2C3'' @ [newline]),
          Memset Buf 2, Memset Bufhex 4, Free Buf [0, 0], Free Bufhex [0, 0, 0, 0, 0],
          Memset Salt 2, Memset Salthex 4, Free Salt [0, 0], Free Salthex [0, 0, 0, 0, 0]],
       heap = h, tty_attr = Some cooked\<rparr>)"
  by (simp add: run_defs run_no_tty_def)

lemma run_mismatch_result:
  "\<exists>h. main run_mismatch =
     (Fatal ''Passwords don't match'' [],
      \<lparr>trace =
         [Fopen ''/dev/tty'', Tcgetattr Tty, Tcsetattr Tty (cooked\<lparr>c_lflag := 0x8a32\<rparr>),
          Write Stdout (bytes_of ''Enter password: ''), Getline Stdin,
          Write Stdout (newline # bytes_of ''Reenter password: ''), Getline Stdin,
          Tcsetattr Tty cooked, Write Stdout [newline],
          Memset Pass1 2, Memset Pass2 2, Free Pass1 [0, 0, 0, 0], Free Pass2 [0, 0, 0, 0],
          Free Buf [0xAA, 0xAA], Free Bufhex [0xAA, 0xAA, 0xAA, 0xAA, 0xAA],
          Free Salthex [0xAA, 0xAA, 0xAA, 0xAA, 0xAA], Free Salt [0xAA, 0xAA]],
       heap = h, tty_attr = Some cooked\<rparr>)"
  by (simp add: run_defs run_mismatch_def)

lemma run_nul_bytes_result:
  "\<exists>h. main run_nul_bytes =
     (Exit 0,
      \<lparr>trace =
         [Fopen ''/dev/tty'', Tcgetattr Tty, Tcsetattr Tty (cooked\<lparr>c_lflag := 0x8a32\<rparr>),
          Write Stdout (bytes_of ''Enter password: ''), Getline Stdin,
          Write Stdout (newline # bytes_of ''Reenter password: ''), Getline Stdin,
          Tcsetattr Tty cooked, Write Stdout [newline],
          Memset Pass2 1, Free Pass2 [0, 0, 0x63, 0, 0],
          Fopen ''/dev/random'', Fread 2, Fclose Opened,
          Pbkdf2 (bytes_of ''a'') [0x01, 0xEF] 10000 2,
          Memset Pass1 1, Free Pass1 [0, 0, 0x62, 0, 0],
          Write Stdout
            (bytes_of ''Your PBKDF2 is grub.pbkdf2.sha512.10000.01EF.C1C2'' @ [newline]),
          Memset Buf 2, Memset Bufhex 4, Free Buf [0, 0], Free Bufhex [0, 0, 0, 0, 0],
          Memset Salt 2, Memset Salthex 4, Free Salt [0, 0], Free Salthex [0, 0, 0, 0, 0]],
       heap = h, tty_attr = Some cooked\<rparr>)"
  by (simp add: run_defs run_nul_bytes_def)

lemma run_short_read_result:
  "\<exists>h. main run_short_read =
     (Undefined,
      \<lparr>trace =
         [Fopen ''/dev/tty'', Tcgetattr Tty, Tcsetattr Tty (cooked\<lparr>c_lflag := 0x8a32\<rparr>),
          Write Stdout (bytes_of ''Enter password: ''), Getline Stdin,
          Write Stdout (newline # bytes_of ''Reenter password: ''), Getline Stdin,
          Tcsetattr Tty cooked, Write Stdout [newline],
          Memset Pass2 2, Free Pass2 [0, 0, 0, 0],
          Fopen ''/dev/random'', Fread 2, Fclose Opened,
          Memset Pass1 2, Free Pass1 [0, 0, 0, 0],
          Free Buf [0xAA, 0xAA], Free Bufhex [0xAA, 0xAA, 0xAA, 0xAA, 0xAA],
          Free Salthex [0xAA, 0xAA, 0xAA, 0xAA, 0xAA], Free Salt [0x01, 0xAA],
          Fclose Closed],
       heap = h, tty_attr = Some cooked\<rparr>)"
  by (simp add: run_defs run_short_read_def)

lemma run_no_random_result:
  "\<exists>h. main run_no_random =
     (Undefined,
      \<lparr>trace =
         [Fopen ''/dev/tty'', Tcgetattr Tty, Tcsetattr Tty (cooked\<lparr>c_lflag := 0x8a32\<rparr>),
          Write Stdout (bytes_of ''Enter password: ''), Getline Stdin,
          Write Stdout (newline # bytes_of ''Reenter password: ''), Getline Stdin,
          Tcsetattr Tty cooked, Write Stdout [newline],
          Memset Pass2 2, Free Pass2 [0, 0, 0, 0],
          Fopen ''/dev/random'',
          Memset Pass1 2, Free Pass1 [0, 0, 0, 0],
          Free Buf [0xAA, 0xAA], Free Bufhex [0xAA, 0xAA, 0xAA, 0xAA, 0xAA],
          Free Salthex [0xAA, 0xAA, 0xAA, 0xAA, 0xAA], Free Salt [0xAA, 0xAA],
          Fclose Null],
       heap = h, tty_attr = Some cooked\<rparr>)"
  by (simp add: run_defs run_no_random_def)

lemma run_kdf_error_outcome:
  "fst (main run_kdf_error) = Fatal ''Cryptographic error number %d'' [5]"
  by (simp add: run_defs run_kdf_error_def)

lemma run_restore_fails_attr:
  "tty_attr (snd (main run_restore_fails)) = Some (cooked\<lparr>c_lflag := 0x8a32\<rparr>)"
  by (simp add: run_defs run_restore_fails_def)

lemma prompted_runs:
  "prompted run_ok run_params"
  "prompted run_mismatch run_params"
  "prompted run_empty_password run_params"
  "prompted run_short_read run_params"
  "prompted run_no_random run_params"
  "prompted run_kdf_error run_params"
  by (simp_all add: prompted_def run_ok_def run_mismatch_def run_empty_password_def
        run_short_read_def run_no_random_def run_kdf_error_def run_params_def
        default_params_def)


lemma run_nul_mismatch_result:
  "\<exists>h. main run_nul_mismatch =
     (Fatal ''Passwords don't match'' [],
      \<lparr>trace =
         [Fopen ''/dev/tty'', Tcgetattr Tty, Tcsetattr Tty (cooked\<lparr>c_lflag := 0x8a32\<rparr>),
          Write Stdout (bytes_of ''Enter password: ''), Getline Stdin,
          Write Stdout (newline # bytes_of ''Reenter password: ''), Getline Stdin,
          Tcsetattr Tty cooked, Write Stdout [newline],
          Memset Pass1 1, Memset Pass2 2, Free Pass1 [0, 0, 0x62, 0, 0], Free Pass2 [0, 0, 0, 0],
          Free Buf [0xAA, 0xAA], Free Bufhex [0xAA, 0xAA, 0xAA, 0xAA, 0xAA],
          Free Salthex [0xAA, 0xAA, 0xAA, 0xAA, 0xAA], Free Salt [0xAA, 0xAA]],
       heap = h, tty_attr = Some cooked\<rparr>)"
  by (simp add: run_defs run_nul_mismatch_def)

lemma run_lines:
  "line1 run_mismatch = Some (bytes_of ''pw'' @ [newline])"
  "line2 run_mismatch = Some (bytes_of ''px'' @ [newline])"
  "line1 run_empty_password = Some [newline]"
  "line2 run_empty_password = Some [newline]"
  "line1 run_kdf_error = Some (bytes_of ''pw'' @ [newline])"
  "line2 run_kdf_error = Some (bytes_of ''pw'' @ [newline])"
  "line1 run_nul_bytes = Some [0x61, 0, 0x62, 0x0A]"
  "line2 run_nul_bytes = Some [0x61, 0, 0x63, 0x0A]"
  by (simp_all add: run_mismatch_def run_empty_password_def run_kdf_error_def run_nul_bytes_def
        run_ok_def bytes_of_def newline_def)

section \<open>The iteration count\<close>

text \<open>No option changes the iteration count: every run that gets to the prompts uses 10000.\<close>

lemma parse_options_count:
  "parse_options e os p st = Inr p' \<Longrightarrow> c_count p' = c_count p"
  by (induction os arbitrary: p) (auto split: if_splits)

lemma iteration_count_fixed: "prompted e p \<Longrightarrow> c_count p = 10000"
  using parse_options_count [of e "opts e" default_params "init_state e" p]
  by (auto simp: prompted_def default_params_def split: sum.splits)

section \<open>The claims on concrete runs\<close>

text \<open>
  C1, counterexample. On the mismatch path the salt and the derived-key buffer are released
  with the bytes the allocation held, without being overwritten; and an entry with a NUL byte
  is released with the bytes after that NUL still in place.
\<close>

theorem release_without_wipe_counterexample:
  "fst (main run_mismatch) = Fatal ''Passwords don't match'' [] \<and>
   Free Salt [0xAA, 0xAA] \<in> set (trace (snd (main run_mismatch))) \<and>
   Free Buf [0xAA, 0xAA] \<in> set (trace (snd (main run_mismatch))) \<and>
   memset_buffers (trace (snd (main run_mismatch))) = [Pass1, Pass2] \<and>
   \<not> wiped_on_release [Pass1, Pass2, Salt, Buf] (trace (snd (main run_mismatch))) \<and>
   fst (main run_nul_mismatch) = Fatal ''Passwords don't match'' [] \<and>
   Free Pass1 [0, 0, 0x62, 0, 0] \<in> set (trace (snd (main run_nul_mismatch)))"
  using run_mismatch_result run_nul_mismatch_result by auto

text \<open>C1, witness: a run on which the primitive reports error 5.\<close>

theorem passwords_wiped_before_release_witness:
  "nul_free (line1 run_kdf_error) \<and> nul_free (line2 run_kdf_error) \<and>
   fst (main run_kdf_error) = Fatal ''Cryptographic error number %d'' [5] \<and>
   prompted run_kdf_error run_params \<and>
   wiped_on_release [Pass1, Pass2] (trace (snd (main run_kdf_error))) \<and>
   heap (snd (main run_kdf_error)) Pass1 = None \<and>
   wiped_on_release [Buf, Salt] (trace (snd (main run_kdf_error))) \<and>
   heap (snd (main run_kdf_error)) Buf = None \<and>
   heap (snd (main run_kdf_error)) Salt = None \<and>
   Free Buf [0, 0] \<in> set (trace (snd (main run_kdf_error))) \<and>
   Free Salt [0, 0] \<in> set (trace (snd (main run_kdf_error)))"
proof -
  have hyps: "nul_free (line1 run_kdf_error)" "nul_free (line2 run_kdf_error)"
    by (simp_all add: run_lines nul_free_def bytes_of_def newline_def)
  have "unat (buflen run_params) = Suc (Suc 0)" and "unat (saltlen run_params) = Suc (Suc 0)"
    by (simp_all add: run_params_def)
  then have sizes: "replicate (unat (buflen run_params)) (0::byte) = [0, 0]"
    "replicate (unat (saltlen run_params)) (0::byte) = [0, 0]"
    by simp_all
  from passwords_wiped_before_release [OF hyps, of 5 run_params] hyps run_kdf_error_outcome
    prompted_runs(6) sizes
  show ?thesis by simp
qed

text \<open>
  C3, counterexample. Two entries that differ in a byte after a NUL byte pass the
  confirmation: the run ends with status 0 and writes a credential line.
\<close>

theorem nul_bytes_pass_confirmation_counterexample:
  "line1 run_nul_bytes = Some [0x61, 0, 0x62, 0x0A] \<and>
   line2 run_nul_bytes = Some [0x61, 0, 0x63, 0x0A] \<and>
   strip_newline [0x61, 0, 0x62, 0x0A] \<noteq> strip_newline [0x61, 0, 0x63, 0x0A] \<and>
   fst (main run_nul_bytes) = Exit 0 \<and>
   prints_credential (trace (snd (main run_nul_bytes)))"
  using run_nul_bytes_result
  by (auto simp: run_lines strip_newline_def newline_def prints_credential_def
        credential_tag_def bytes_of_def)

text \<open>C3, witness: \<open>pw\<close> at the first prompt, \<open>px\<close> at the second.\<close>

theorem mismatch_rejected_witness:
  "prompted run_mismatch run_params \<and>
   line1 run_mismatch = Some (bytes_of ''pw'' @ [newline]) \<and>
   line2 run_mismatch = Some (bytes_of ''px'' @ [newline]) \<and>
   cstr (strip_newline (bytes_of ''pw'' @ [newline])) \<noteq>
     cstr (strip_newline (bytes_of ''px'' @ [newline])) \<and>
   fst (main run_mismatch) = Fatal ''Passwords don't match'' [] \<and>
   \<not> prints_credential (trace (snd (main run_mismatch)))"
proof -
  have differ: "cstr (strip_newline (bytes_of ''pw'' @ [newline])) \<noteq>
      cstr (strip_newline (bytes_of ''px'' @ [newline]))"
    by (simp add: cstr_def strip_newline_def bytes_of_def newline_def)
  from mismatch_rejected [OF prompted_runs(2) run_lines(1,2) differ] prompted_runs(2)
    run_lines(1,2) differ
  show ?thesis by simp
qed

text \<open>
  C4, counterexample. On a run where both reads succeed the first read is followed by the
  second read with no \<open>tcsetattr\<close> in between; and when the restoring call fails the
  attributes stay as modified.
\<close>

theorem restore_counterexample:
  "tcgetattr_res run_ok = Some cooked \<and> tcset_modify_ok run_ok \<and>
   tty_calls (trace (snd (main run_ok))) =
     [Tcsetattr Tty (cooked\<lparr>c_lflag := 0x8a32\<rparr>), Getline Stdin, Getline Stdin,
      Tcsetattr Tty cooked] \<and>
   \<not> restored_after_each_read cooked (tty_calls (trace (snd (main run_ok)))) \<and>
   tcgetattr_res run_restore_fails = Some cooked \<and> tcset_modify_ok run_restore_fails \<and>
   tty_attr (snd (main run_restore_fails)) \<noteq> tcgetattr_res run_restore_fails"
  using run_ok_result run_restore_fails_attr
  by (auto simp: tty_calls_def run_ok_def run_restore_fails_def cooked_def)

text \<open>C4, witness: the run on which everything succeeds.\<close>

theorem terminal_restored_once_witness:
  "tcset_restore_ok run_ok \<and> prompted run_ok run_params \<and>
   tcgetattr_res run_ok = Some cooked \<and> tcset_modify_ok run_ok \<and>
   tty_attr (snd (main run_ok)) = Some cooked \<and>
   tty_calls (trace (snd (main run_ok))) =
     [Tcsetattr Tty (cooked\<lparr>c_lflag := c_lflag cooked AND NOT (ECHO OR ISIG)\<rparr>),
      Getline Stdin, Getline Stdin, Tcsetattr Tty cooked]"
proof -
  have hyps: "tcset_restore_ok run_ok" "tcgetattr_res run_ok = Some cooked"
    "tcset_modify_ok run_ok" "tty_open run_ok"
    "line1 run_ok = Some (bytes_of ''pw'' @ [newline])"
    by (simp_all add: run_ok_def)
  from terminal_restored_once [of run_ok run_params cooked] hyps prompted_runs(1)
  show ?thesis by simp
qed


text \<open>
  C2. \<open>grub-pbkdf2 -c 5 -l 2 -s 2\<close>: the key-derivation primitive is called with the
  iteration count 10000 and the output line carries 10000.
\<close>

theorem iteration_flag_ignored:
  "opts run_iteration_flag = [(CHR ''c'', 5), (CHR ''l'', 2), (CHR ''s'', 2)] \<and>
   fst (main run_iteration_flag) = Exit 0 \<and>
   filter is_pbkdf2 (trace (snd (main run_iteration_flag))) =
     [Pbkdf2 (bytes_of ''pw'') [0x01, 0xEF] 10000 2] \<and>
   stdout_of (filter is_credential_write (trace (snd (main run_iteration_flag)))) =
     bytes_of ''Your PBKDF2 is grub.pbkdf2.sha512.10000.01EF.C2C3'' @ [newline]"
  using run_iteration_flag_result
  by (auto simp: run_iteration_flag_def run_ok_def credential_tag_def bytes_of_def newline_def)

text \<open>
  C5. With the terminal device opened, and also without it, both lines are read from
  standard input and every prompt is written to standard output; nothing is read from the
  terminal device and nothing is written to standard error.
\<close>

theorem password_read_from_stdin:
  "tty_open run_ok \<and>
   getline_streams (trace (snd (main run_ok))) = [Stdin, Stdin] \<and>
   written_streams (trace (snd (main run_ok))) = [Stdout, Stdout, Stdout, Stdout] \<and>
   \<not> tty_open run_no_tty \<and>
   getline_streams (trace (snd (main run_no_tty))) = [Stdin, Stdin] \<and>
   written_streams (trace (snd (main run_no_tty))) = [Stdout, Stdout, Stdout, Stdout]"
  using run_ok_result run_no_tty_result
  by (auto simp: run_ok_def run_no_tty_def)

text \<open>
  C6. The random device delivers one byte where two are asked for: \<open>fread\<close> is called
  once and the key derivation is not reached, but the stream is closed a second time after
  it was closed, and the run ends there, before the error is reported.
\<close>

theorem short_read_closes_stream_twice:
  "random_open run_short_read \<and>
   length (random_data run_short_read) < unat (saltlen run_params) \<and>
   prompted run_short_read run_params \<and>
   fst (main run_short_read) = Undefined \<and>
   filter is_fread (trace (snd (main run_short_read))) = [Fread 2] \<and>
   filter is_pbkdf2 (trace (snd (main run_short_read))) = [] \<and>
   drop 12 (trace (snd (main run_short_read))) =
     [Fread 2, Fclose Opened, Memset Pass1 2, Free Pass1 [0, 0, 0, 0], Free Buf [0xAA, 0xAA],
      Free Bufhex [0xAA, 0xAA, 0xAA, 0xAA, 0xAA], Free Salthex [0xAA, 0xAA, 0xAA, 0xAA, 0xAA],
      Free Salt [0x01, 0xAA], Fclose Closed]"
  using run_short_read_result prompted_runs(4)
  by (auto simp: run_short_read_def run_ok_def run_params_def)

text \<open>
  C7. The random device cannot be opened: after the buffers are released \<open>fclose\<close> is
  called on the null stream, and the run ends there, before the error is reported.
\<close>

theorem unopened_device_closed:
  "\<not> random_open run_no_random \<and>
   prompted run_no_random run_params \<and>
   fst (main run_no_random) = Undefined \<and>
   drop 11 (trace (snd (main run_no_random))) =
     [Fopen ''/dev/random'', Memset Pass1 2, Free Pass1 [0, 0, 0, 0], Free Buf [0xAA, 0xAA],
      Free Bufhex [0xAA, 0xAA, 0xAA, 0xAA, 0xAA], Free Salthex [0xAA, 0xAA, 0xAA, 0xAA, 0xAA],
      Free Salt [0xAA, 0xAA], Fclose Null]"
  using run_no_random_result prompted_runs(5)
  by (auto simp: run_no_random_def run_ok_def)

text \<open>
  C9. A successful run writes three lines to standard output, the two prompts and the
  credential line; and the two runs that end at an \<open>fclose\<close> on a stream that is not
  open have no exit status.
\<close>

theorem prompts_on_stdout:
  "fst (main run_ok) = Exit 0 \<and>
   stdout_of (trace (snd (main run_ok))) =
     bytes_of ''Enter password: '' @ [newline] @
     bytes_of ''Reenter password: '' @ [newline] @
     bytes_of ''Your PBKDF2 is grub.pbkdf2.sha512.10000.01EF.C2C3'' @ [newline] \<and>
   length (filter (\<lambda>b. b = newline) (stdout_of (trace (snd (main run_ok))))) = 3 \<and>
   \<not> exits_nonzero (fst (main run_no_random)) \<and>
   \<not> exits_nonzero (fst (main run_short_read))"
  using run_ok_result run_no_random_result run_short_read_result
  by (auto simp: bytes_of_def newline_def)

end
